theory Spec2Isabelle
  imports Main
begin

section \<open>Data model\<close>

text \<open>
  The value types of the chess model. \<open>Side\<close>, \<open>Column\<close>, \<open>Row\<close> and \<open>Square\<close>
  are declared in \<^verbatim>\<open>./Types\<close>: a side is one of two players, a column one of the
  eight files \<^verbatim>\<open>'A'\<close> .. \<^verbatim>\<open>'H'\<close>, a row one of the numbers 1 .. 8, and a square
  is the object \<^verbatim>\<open>{column, row}\<close>.
\<close>

datatype Side = WHITE | BLACK

datatype Column = ColA | ColB | ColC | ColD | ColE | ColF | ColG | ColH

datatype Row = Row1 | Row2 | Row3 | Row4 | Row5 | Row6 | Row7 | Row8

record Square =
  column :: Column
  row :: Row

text \<open>
  A piece carries an identifier, its side and the name of its kind; the engine reads
  \<^verbatim>\<open>piece.side\<close> and \<^verbatim>\<open>piece.name === 'King'\<close>.
\<close>

record Piece =
  pieceId :: string
  side :: Side
  name :: string

record Player =
  playerSide :: Side

text \<open>
  \<^verbatim>\<open>squaresWithPiece\<close> is a JavaScript object from position keys to pieces. An object
  holds every key once and enumerates its keys in insertion order, so it is an association
  list. A key is the text \<^verbatim>\<open>`${column}${row}`\<close> of a square (\<open>positionKey\<close> below); the
  list is keyed by the square the text stands for. The board object of class
  \<^verbatim>\<open>Chessboard\<close> carries this one field.
\<close>

type_synonym SquareWithPiece = "(Square \<times> Piece) list"

type_synonym Chessboard = SquareWithPiece

text \<open>
  The polymorphic method \<^verbatim>\<open>piece.possibleMoves(position, board)\<close> of the piece classes:
  a parameter of the engine.
\<close>

type_synonym PossibleMoves = "Piece \<Rightarrow> Square \<Rightarrow> Chessboard \<Rightarrow> Square list"

datatype PieceWasMoved = PieceWasMoved Piece Square Square

datatype PieceWasCaptured = PieceWasCaptured Piece Square

datatype Event = Moved PieceWasMoved | Captured PieceWasCaptured

text \<open>The four \<^verbatim>\<open>throw new Error(...)\<close> of \<^verbatim>\<open>move\<close>, in the order of the source.\<close>

datatype error =
    IllegalMove  \<comment> \<open>\<^verbatim>\<open>'There is no piece on this square.'\<close>\<close>
  | OutOfTurn  \<comment> \<open>\<^verbatim>\<open>`It's not Your turn.`\<close>\<close>
  | WrongOwner  \<comment> \<open>\<^verbatim>\<open>'Player can not move other players pieces.'\<close>\<close>
  | IllegalDestination  \<comment> \<open>\<^verbatim>\<open>'Piece can not move to given square.'\<close>\<close>

record ChessEngine =
  currentSide :: Side
  board :: Chessboard

section \<open>Position keys and serialised squares\<close>

fun columnChar :: "Column \<Rightarrow> char" where
  "columnChar ColA = CHR ''A''"
| "columnChar ColB = CHR ''B''"
| "columnChar ColC = CHR ''C''"
| "columnChar ColD = CHR ''D''"
| "columnChar ColE = CHR ''E''"
| "columnChar ColF = CHR ''F''"
| "columnChar ColG = CHR ''G''"
| "columnChar ColH = CHR ''H''"

fun rowChar :: "Row \<Rightarrow> char" where
  "rowChar Row1 = CHR ''1''"
| "rowChar Row2 = CHR ''2''"
| "rowChar Row3 = CHR ''3''"
| "rowChar Row4 = CHR ''4''"
| "rowChar Row5 = CHR ''5''"
| "rowChar Row6 = CHR ''6''"
| "rowChar Row7 = CHR ''7''"
| "rowChar Row8 = CHR ''8''"

text \<open>\<^verbatim>\<open>`${square.column}${square.row}`\<close>\<close>

definition positionKey :: "Square \<Rightarrow> string" where
  "positionKey square = [columnChar (column square), rowChar (row square)]"

definition columnOfChar :: "char \<Rightarrow> Column option" where
  "columnOfChar c = find (\<lambda>col. columnChar col = c) [ColA, ColB, ColC, ColD, ColE, ColF, ColG, ColH]"

definition rowOfChar :: "char \<Rightarrow> Row option" where
  "rowOfChar c = find (\<lambda>r. rowChar r = c) [Row1, Row2, Row3, Row4, Row5, Row6, Row7, Row8]"

text \<open>
  \<^verbatim>\<open>{ column: key[0], row: Number(key[1]) as Row }\<close>: the square a key is read back
  to. \<open>None\<close> for a text that is no key of a square.
\<close>

fun squareOfKey :: "string \<Rightarrow> Square option" where
  "squareOfKey (c # r # _) =
     (case (columnOfChar c, rowOfChar r) of
        (Some col, Some rw) \<Rightarrow> Some \<lparr>column = col, row = rw\<rparr>
      | _ \<Rightarrow> None)"
| "squareOfKey _ = None"

text \<open>
  \<^verbatim>\<open>JSON.stringify\<close> of a square or of \<^verbatim>\<open>undefined\<close>. A square object lists
  \<^verbatim>\<open>column\<close> before \<^verbatim>\<open>row\<close>, as the literal in \<^verbatim>\<open>kingPosition\<close> does; the text of
  \<^verbatim>\<open>undefined\<close> is \<^verbatim>\<open>undefined\<close>, here \<open>None\<close>.
\<close>

definition JSON_stringify :: "Square option \<Rightarrow> string option" where
  "JSON_stringify v =
     (case v of
        None \<Rightarrow> None
      | Some square \<Rightarrow>
          Some ([CHR ''{'', CHR 0x22] @ ''column'' @ [CHR 0x22, CHR '':'', CHR 0x22]
                @ [columnChar (column square)] @ [CHR 0x22, CHR '','', CHR 0x22] @ ''row''
                @ [CHR 0x22, CHR '':''] @ [rowChar (row square)] @ [CHR ''}'']))"

section \<open>The board\<close>

text \<open>\<^verbatim>\<open>delete object[key]\<close>\<close>

definition deleteKey :: "('k \<times> 'v) list \<Rightarrow> 'k \<Rightarrow> ('k \<times> 'v) list" where
  "deleteKey object key = filter (\<lambda>(k, v). k \<noteq> key) object"

text \<open>
  \<^verbatim>\<open>object[key] = value\<close>: a key the object has keeps its place in the enumeration, a
  new key is enumerated last.
\<close>

definition assignKey :: "('k \<times> 'v) list \<Rightarrow> 'k \<Rightarrow> 'v \<Rightarrow> ('k \<times> 'v) list" where
  "assignKey object key value =
     (if list_ex (\<lambda>(k, v). k = key) object
      then map (\<lambda>(k, v). if k = key then (k, value) else (k, v)) object
      else object @ [(key, value)])"

text \<open>
  Modelled from the spec: \<^verbatim>\<open>Chessboard.onPositionPiece\<close> is not among the sources.
  The spec: ``\<^verbatim>\<open>pieceAt(square)\<close> \<rightarrow> Piece or absent: lookup, no side effect''.
\<close>

definition onPositionPiece :: "Chessboard \<Rightarrow> Square \<Rightarrow> Piece option" where
  "onPositionPiece chessboard square = map_of chessboard square"

text \<open>
  Modelled from the spec: \<^verbatim>\<open>Chessboard.movePiece\<close> is not among the sources. The spec:
  ``relocates whatever piece occupies \<^verbatim>\<open>from\<close> to \<^verbatim>\<open>to\<close>, overwriting (i.e., implicitly
  capturing) any piece previously at \<^verbatim>\<open>to\<close>, and removing the \<^verbatim>\<open>from\<close> entry.
  Precondition: \<^verbatim>\<open>from\<close> is occupied''. With \<^verbatim>\<open>from\<close> empty the board is left as it is.
\<close>

definition movePiece :: "Chessboard \<Rightarrow> Square \<Rightarrow> Square \<Rightarrow> Chessboard" where
  "movePiece chessboard squareFrom squareTo =
     (case onPositionPiece chessboard squareFrom of
        None \<Rightarrow> chessboard
      | Some piece \<Rightarrow> deleteKey (assignKey chessboard squareTo piece) squareFrom)"

text \<open>
  Modelled from the spec: \<^verbatim>\<open>Piece.isOpponentOf\<close> is not among the sources. The spec
  speaks of ``an opposing piece'': a piece of the other side.
\<close>

definition isOpponentOf :: "Piece \<Rightarrow> Piece \<Rightarrow> bool" where
  "isOpponentOf this other = (side this \<noteq> side other)"

section \<open>The engine\<close>

definition pieceWasCaptured :: "ChessEngine \<Rightarrow> Square \<Rightarrow> Piece \<Rightarrow> PieceWasCaptured option" where
  "pieceWasCaptured this squareTo chosenPiece =
     (case onPositionPiece (board this) squareTo of
        None \<Rightarrow> None
      | Some pieceOnSquare \<Rightarrow>
          if isOpponentOf pieceOnSquare chosenPiece
          then Some (PieceWasCaptured pieceOnSquare squareTo)
          else None)"

definition changeTurn :: "Side \<Rightarrow> Side" where
  "changeTurn s = (if s = WHITE then BLACK else WHITE)"

fun onPieceWasMoved :: "ChessEngine \<Rightarrow> PieceWasMoved \<Rightarrow> ChessEngine" where
  "onPieceWasMoved this (PieceWasMoved piece squareFrom squareTo) =
     this\<lparr>board := movePiece (board this) squareFrom squareTo,
          currentSide := changeTurn (side piece)\<rparr>"

text \<open>
  \<^verbatim>\<open>piecePossibleMoves?.some(...) ?? false\<close>: the comparison is by column and row, which
  is equality of squares.
\<close>

definition canMoveOnSquare :: "PossibleMoves \<Rightarrow> ChessEngine \<Rightarrow> Square \<Rightarrow> Square \<Rightarrow> bool" where
  "canMoveOnSquare possibleMovesOf this squareFrom squareTo =
     (case onPositionPiece (board this) squareFrom of
        None \<Rightarrow> False
      | Some piece \<Rightarrow>
          list_ex (\<lambda>possibleMove. column possibleMove = column squareTo \<and> row possibleMove = row squareTo)
            (possibleMovesOf piece squareFrom (board this)))"

text \<open>
  \<^verbatim>\<open>move\<close> throws or returns the events, and in both cases leaves an engine behind: the
  result is the outcome together with the engine after the call.
\<close>

definition move :: "PossibleMoves \<Rightarrow> ChessEngine \<Rightarrow> Player \<Rightarrow> Square \<Rightarrow> Square
    \<Rightarrow> (error + Event list) \<times> ChessEngine" where
  "move possibleMovesOf this byPlayer squareFrom squareTo =
     (case onPositionPiece (board this) squareFrom of
        None \<Rightarrow> (Inl IllegalMove, this)
      | Some chosenPiece \<Rightarrow>
          if playerSide byPlayer \<noteq> currentSide this then (Inl OutOfTurn, this)
          else if playerSide byPlayer \<noteq> side chosenPiece then (Inl WrongOwner, this)
          else if \<not> canMoveOnSquare possibleMovesOf this squareFrom squareTo
            then (Inl IllegalDestination, this)
          else
            (let pieceWasMoved = PieceWasMoved chosenPiece squareFrom squareTo;
                 pieceCaptured = pieceWasCaptured this squareTo chosenPiece;
                 this' = onPieceWasMoved this pieceWasMoved
             in (Inr (case pieceCaptured of
                        Some captured \<Rightarrow> [Moved pieceWasMoved, Captured captured]
                      | None \<Rightarrow> [Moved pieceWasMoved]),
                 this')))"

text \<open>
  \<^verbatim>\<open>_.cloneDeep(chessboard)\<close> on boards as values: the copy has the same keys in the
  same order and equal pieces. (Section ``Object identity'' has the copy with references.)
\<close>

definition cloneDeep :: "Chessboard \<Rightarrow> Chessboard" where
  "cloneDeep chessboard = map (\<lambda>(key, piece). (key, piece)) chessboard"

text \<open>
  With no piece on \<^verbatim>\<open>squareFrom\<close> the source stores \<^verbatim>\<open>undefined\<close> under the key of
  \<^verbatim>\<open>squareTo\<close>, which is no board of pieces: \<open>None\<close>.
\<close>

definition returnWirtualProposedBoardAfterMove :: "Chessboard \<Rightarrow> Square \<Rightarrow> Square \<Rightarrow> Chessboard option" where
  "returnWirtualProposedBoardAfterMove chessboard squareFrom squareTo =
     (let wirtualPorposedChessboard = cloneDeep chessboard;
          movedPiece = onPositionPiece chessboard squareFrom
      in case movedPiece of
           None \<Rightarrow> None
         | Some piece \<Rightarrow> Some (assignKey (deleteKey wirtualPorposedChessboard squareFrom) squareTo piece))"

text \<open>
  \<^verbatim>\<open>Object.keys(squaresWithPieces).find(...)\<close>: the first key, in the order of the
  object, that holds a king of \<^verbatim>\<open>kingSide\<close>; \<^verbatim>\<open>undefined\<close> (\<open>None\<close>) when there is
  none. The key found is read back to a square, \<open>squareOfKey (positionKey key)\<close>.
\<close>

definition kingPosition :: "Side \<Rightarrow> Chessboard \<Rightarrow> Square option" where
  "kingPosition kingSide chessboard =
     (case find (\<lambda>(key, piece). name piece = ''King'' \<and> side piece = kingSide) chessboard of
        None \<Rightarrow> None
      | Some (allyKingPositionKey, piece) \<Rightarrow> squareOfKey (positionKey allyKingPositionKey))"

text \<open>
  The body of the \<^verbatim>\<open>forEach\<close> of \<^verbatim>\<open>isKingChecked\<close>, from the flag before an entry to
  the flag after it.
\<close>

definition isKingCheckedStep :: "PossibleMoves \<Rightarrow> Chessboard \<Rightarrow> Side \<Rightarrow> Square option
    \<Rightarrow> Square \<times> Piece \<Rightarrow> bool \<Rightarrow> bool" where
  "isKingCheckedStep possibleMovesOf chessboard kingSide kingPos entry isCheckedSquareFlag =
     (case entry of (key, mappedPiece) \<Rightarrow>
        if side mappedPiece \<noteq> kingSide
        then (case squareOfKey (positionKey key) of
                None \<Rightarrow> isCheckedSquareFlag
              | Some mappedPiecePosition \<Rightarrow>
                  (let possibleMappedPieceMoves = possibleMovesOf mappedPiece mappedPiecePosition chessboard;
                       isKingPositionOnPossibleEnemyPieceMoves =
                         list_ex (\<lambda>checkedPosition. JSON_stringify (Some checkedPosition) = JSON_stringify kingPos)
                           possibleMappedPieceMoves
                   in if isKingPositionOnPossibleEnemyPieceMoves
                      then isKingPositionOnPossibleEnemyPieceMoves
                      else isCheckedSquareFlag))
        else isCheckedSquareFlag)"

definition isKingChecked :: "PossibleMoves \<Rightarrow> Chessboard \<Rightarrow> Side \<Rightarrow> bool" where
  "isKingChecked possibleMovesOf chessboard kingSide =
     (let kingPos = kingPosition kingSide chessboard
      in fold (isKingCheckedStep possibleMovesOf chessboard kingSide kingPos) chessboard False)"

text \<open>
  \<open>None\<close> when no piece stands on \<^verbatim>\<open>squareFrom\<close>: \<^verbatim>\<open>isKingChecked\<close> then reads
  \<^verbatim>\<open>.side\<close> of the \<^verbatim>\<open>undefined\<close> entry and raises a TypeError.
\<close>

definition willBeKingChecked :: "PossibleMoves \<Rightarrow> ChessEngine \<Rightarrow> Square \<Rightarrow> Square \<Rightarrow> bool option" where
  "willBeKingChecked possibleMovesOf this squareFrom squareTo =
     (case returnWirtualProposedBoardAfterMove (board this) squareFrom squareTo of
        None \<Rightarrow> None
      | Some wirtualPorposedChessboard \<Rightarrow>
          Some (isKingChecked possibleMovesOf wirtualPorposedChessboard (currentSide this)))"

definition returnPlayerMovesWithoutThoseThatCauseHisKingToCheck ::
    "PossibleMoves \<Rightarrow> ChessEngine \<Rightarrow> Square \<Rightarrow> Square list" where
  "returnPlayerMovesWithoutThoseThatCauseHisKingToCheck possibleMovesOf this position =
     (let initialPossibleMoves =
            (case onPositionPiece (board this) position of
               None \<Rightarrow> []
             | Some piece \<Rightarrow> possibleMovesOf piece position (board this));
          filteringFunction =
            (\<lambda>onePossibleMove. willBeKingChecked possibleMovesOf this position onePossibleMove = Some False)
      in filter filteringFunction initialPossibleMoves)"

definition possibleMoves :: "PossibleMoves \<Rightarrow> ChessEngine \<Rightarrow> Square \<Rightarrow> Square list" where
  "possibleMoves possibleMovesOf this position =
     returnPlayerMovesWithoutThoseThatCauseHisKingToCheck possibleMovesOf this position"

section \<open>The pawn\<close>

text \<open>
  \<^verbatim>\<open>Pawn.possibleMoves\<close>. The three sub-rules \<^verbatim>\<open>goAhead\<close>, \<^verbatim>\<open>goDoubleAhead\<close> and
  \<^verbatim>\<open>goDiagonalAhead\<close> are methods the class inherits; they are parameters here, and so
  is the type of the board. \<^verbatim>\<open>[].concat(a, b, c)\<close> of three arrays appends them.
\<close>

definition Pawn_possibleMoves ::
    "(Square \<Rightarrow> 'board \<Rightarrow> Square list) \<Rightarrow> (Square \<Rightarrow> 'board \<Rightarrow> Square list)
      \<Rightarrow> (Square \<Rightarrow> 'board \<Rightarrow> Square list) \<Rightarrow> Square \<Rightarrow> 'board \<Rightarrow> Square list" where
  "Pawn_possibleMoves goAhead goDoubleAhead goDiagonalAhead position board' =
     (let movesToGo = [];
          movesToGo = movesToGo @ goAhead position board' @ goDoubleAhead position board'
                        @ goDiagonalAhead position board'
      in movesToGo)"

section \<open>Move generation of the pieces\<close>

text \<open>
  Modelled from the spec: the piece classes' \<^verbatim>\<open>possibleMoves\<close> and the pawn's three
  sub-rules are not among the sources. The spec (4.1): sliding pieces walk each direction
  one square at a time and stop on the first occupied square, which is a destination only
  when it holds an opposing piece; knight and king take their fixed offsets onto squares
  that are on the board and empty or held by an opposing piece; a pawn advances one square
  onto an empty square, two squares from its starting row when both squares are empty, and
  diagonally only onto an opposing piece. White pawns move towards row 8 from row 2, black
  pawns towards row 1 from row 7. The theorems on the engine hold for every move
  generation; this one gives them boards to be evaluated on.
\<close>

fun columnIndex :: "Column \<Rightarrow> int" where
  "columnIndex ColA = 1"
| "columnIndex ColB = 2"
| "columnIndex ColC = 3"
| "columnIndex ColD = 4"
| "columnIndex ColE = 5"
| "columnIndex ColF = 6"
| "columnIndex ColG = 7"
| "columnIndex ColH = 8"

fun rowNumber :: "Row \<Rightarrow> int" where
  "rowNumber Row1 = 1"
| "rowNumber Row2 = 2"
| "rowNumber Row3 = 3"
| "rowNumber Row4 = 4"
| "rowNumber Row5 = 5"
| "rowNumber Row6 = 6"
| "rowNumber Row7 = 7"
| "rowNumber Row8 = 8"

definition squareAt :: "int \<Rightarrow> int \<Rightarrow> Square option" where
  "squareAt c r =
     (case (find (\<lambda>col. columnIndex col = c) [ColA, ColB, ColC, ColD, ColE, ColF, ColG, ColH],
            find (\<lambda>rw. rowNumber rw = r) [Row1, Row2, Row3, Row4, Row5, Row6, Row7, Row8]) of
        (Some col, Some rw) \<Rightarrow> Some \<lparr>column = col, row = rw\<rparr>
      | _ \<Rightarrow> None)"

definition offsetSquare :: "Square \<Rightarrow> int \<times> int \<Rightarrow> Square option" where
  "offsetSquare position offset =
     squareAt (columnIndex (column position) + fst offset) (rowNumber (row position) + snd offset)"

definition emptyOrOpponent :: "Piece \<Rightarrow> Chessboard \<Rightarrow> Square \<Rightarrow> bool" where
  "emptyOrOpponent this chessboard square =
     (case onPositionPiece chessboard square of
        None \<Rightarrow> True
      | Some other \<Rightarrow> isOpponentOf other this)"

definition holdsOpponent :: "Piece \<Rightarrow> Chessboard \<Rightarrow> Square \<Rightarrow> bool" where
  "holdsOpponent this chessboard square =
     (case onPositionPiece chessboard square of
        None \<Rightarrow> False
      | Some other \<Rightarrow> isOpponentOf other this)"

definition offsetSquares :: "Square \<Rightarrow> (int \<times> int) list \<Rightarrow> Square list" where
  "offsetSquares position offsets =
     concat (map (\<lambda>offset. case offsetSquare position offset of None \<Rightarrow> [] | Some square \<Rightarrow> [square]) offsets)"

definition fixedOffsetMoves :: "(int \<times> int) list \<Rightarrow> Piece \<Rightarrow> Square \<Rightarrow> Chessboard \<Rightarrow> Square list" where
  "fixedOffsetMoves offsets this position chessboard =
     filter (emptyOrOpponent this chessboard) (offsetSquares position offsets)"

fun slide :: "nat \<Rightarrow> Piece \<Rightarrow> Chessboard \<Rightarrow> Square \<Rightarrow> int \<times> int \<Rightarrow> Square list" where
  "slide 0 this chessboard position direction = []"
| "slide (Suc steps) this chessboard position direction =
     (case offsetSquare position direction of
        None \<Rightarrow> []
      | Some square \<Rightarrow>
          (case onPositionPiece chessboard square of
             None \<Rightarrow> square # slide steps this chessboard square direction
           | Some other \<Rightarrow> if isOpponentOf other this then [square] else []))"

definition slidingMoves :: "(int \<times> int) list \<Rightarrow> Piece \<Rightarrow> Square \<Rightarrow> Chessboard \<Rightarrow> Square list" where
  "slidingMoves directions this position chessboard =
     concat (map (slide 7 this chessboard position) directions)"

definition straightDirections :: "(int \<times> int) list" where
  "straightDirections = [(0, 1), (1, 0), (0, -1), (-1, 0)]"

definition diagonalDirections :: "(int \<times> int) list" where
  "diagonalDirections = [(1, 1), (1, -1), (-1, -1), (-1, 1)]"

definition knightOffsets :: "(int \<times> int) list" where
  "knightOffsets = [(1, 2), (2, 1), (2, -1), (1, -2), (-1, -2), (-2, -1), (-2, 1), (-1, 2)]"

definition forward :: "Piece \<Rightarrow> int" where
  "forward this = (if side this = WHITE then 1 else -1)"

definition startingRow :: "Piece \<Rightarrow> int" where
  "startingRow this = (if side this = WHITE then 2 else 7)"

definition goAhead :: "Piece \<Rightarrow> Square \<Rightarrow> Chessboard \<Rightarrow> Square list" where
  "goAhead this position chessboard =
     filter (\<lambda>square. onPositionPiece chessboard square = None)
       (offsetSquares position [(0, forward this)])"

definition goDoubleAhead :: "Piece \<Rightarrow> Square \<Rightarrow> Chessboard \<Rightarrow> Square list" where
  "goDoubleAhead this position chessboard =
     (if rowNumber (row position) = startingRow this
         \<and> goAhead this position chessboard \<noteq> []
      then filter (\<lambda>square. onPositionPiece chessboard square = None)
             (offsetSquares position [(0, 2 * forward this)])
      else [])"

definition goDiagonalAhead :: "Piece \<Rightarrow> Square \<Rightarrow> Chessboard \<Rightarrow> Square list" where
  "goDiagonalAhead this position chessboard =
     filter (holdsOpponent this chessboard)
       (offsetSquares position [(-1, forward this), (1, forward this)])"

definition piecePossibleMoves :: PossibleMoves where
  "piecePossibleMoves this position chessboard =
     (if name this = ''Pawn''
        then Pawn_possibleMoves (goAhead this) (goDoubleAhead this) (goDiagonalAhead this) position chessboard
      else if name this = ''Knight'' then fixedOffsetMoves knightOffsets this position chessboard
      else if name this = ''Bishop'' then slidingMoves diagonalDirections this position chessboard
      else if name this = ''Rook'' then slidingMoves straightDirections this position chessboard
      else if name this = ''Queen''
        then slidingMoves (straightDirections @ diagonalDirections) this position chessboard
      else if name this = ''King''
        then fixedOffsetMoves (straightDirections @ diagonalDirections) this position chessboard
      else [])"

definition sq :: "Column \<Rightarrow> Row \<Rightarrow> Square" where
  "sq c r = \<lparr>column = c, row = r\<rparr>"

definition mkPiece :: "string \<Rightarrow> Side \<Rightarrow> string \<Rightarrow> Piece" where
  "mkPiece i s n = \<lparr>pieceId = i, side = s, name = n\<rparr>"

text \<open>
  A board for the examples: the white king on E1, a white rook on E2 and a black rook on
  E8, with the black king on A8. The white rook shields its king from the black rook.
\<close>

definition pinnedBoard :: Chessboard where
  "pinnedBoard =
     [(sq ColE Row1, mkPiece ''K'' WHITE ''King''),
      (sq ColE Row2, mkPiece ''R'' WHITE ''Rook''),
      (sq ColE Row8, mkPiece ''r'' BLACK ''Rook''),
      (sq ColA Row8, mkPiece ''k'' BLACK ''King'')]"

definition whiteRook :: Piece where
  "whiteRook = mkPiece ''R'' WHITE ''Rook''"

definition blackRook :: Piece where
  "blackRook = mkPiece ''r'' BLACK ''Rook''"

text \<open>\<open>pinnedBoard\<close> after the white rook has left the E file for A2: its king is attacked.\<close>

definition exposedBoard :: Chessboard where
  "exposedBoard = assignKey (deleteKey pinnedBoard (sq ColE Row2)) (sq ColA Row2) whiteRook"

definition whiteToMove :: ChessEngine where
  "whiteToMove = \<lparr>currentSide = WHITE, board = pinnedBoard\<rparr>"

definition blackToMove :: ChessEngine where
  "blackToMove = \<lparr>currentSide = BLACK, board = pinnedBoard\<rparr>"

definition white :: Player where
  "white = \<lparr>playerSide = WHITE\<rparr>"

definition black :: Player where
  "black = \<lparr>playerSide = BLACK\<rparr>"

section \<open>Object identity\<close>

text \<open>
  Pieces are objects: a board holds references to them, and two boards may hold the same
  piece. For the claims on the independence of the hypothetical board the pieces live in a
  store, from addresses to pieces, and a board maps its keys to addresses.
  \<open>nextRef\<close> is the first address not yet given out.
\<close>

type_synonym ref = nat

record Store =
  objects :: "ref \<Rightarrow> Piece option"
  nextRef :: ref

type_synonym ChessboardRef = "(Square \<times> ref) list"

text \<open>A new object with the fields of the one at \<open>r\<close>.\<close>

definition cloneObject :: "Store \<Rightarrow> ref \<Rightarrow> Store \<times> ref" where
  "cloneObject store r =
     (store\<lparr>objects := (objects store)(nextRef store := objects store r),
            nextRef := Suc (nextRef store)\<rparr>,
      nextRef store)"

text \<open>
  \<^verbatim>\<open>_.cloneDeep(chessboard)\<close>: a new board object with the same keys in the same order,
  every piece a new object. (On a board, no two keys hold the same piece.)
\<close>

fun cloneDeepRef :: "Store \<Rightarrow> ChessboardRef \<Rightarrow> Store \<times> ChessboardRef" where
  "cloneDeepRef store [] = (store, [])"
| "cloneDeepRef store ((key, r) # entries) =
     (case cloneObject store r of
        (store1, r') \<Rightarrow>
          (case cloneDeepRef store1 entries of
             (store2, entries') \<Rightarrow> (store2, (key, r') # entries')))"

text \<open>
  \<^verbatim>\<open>returnWirtualProposedBoardAfterMove\<close> on references. \<^verbatim>\<open>movedPiece\<close> is read from
  \<^verbatim>\<open>chessboard\<close>, the board that was passed in, and not from the copy.
\<close>

definition returnWirtualProposedBoardAfterMoveRef ::
    "Store \<Rightarrow> ChessboardRef \<Rightarrow> Square \<Rightarrow> Square \<Rightarrow> (Store \<times> ChessboardRef) option" where
  "returnWirtualProposedBoardAfterMoveRef store chessboard squareFrom squareTo =
     (case cloneDeepRef store chessboard of
        (store', wirtualPorposedChessboard) \<Rightarrow>
          (let movedPiece = map_of chessboard squareFrom
           in case movedPiece of
                None \<Rightarrow> None
              | Some r \<Rightarrow>
                  Some (store', assignKey (deleteKey wirtualPorposedChessboard squareFrom) squareTo r)))"

text \<open>The piece a board shows on a square: the object at the address the key holds.\<close>

definition pieceOn :: "Store \<Rightarrow> ChessboardRef \<Rightarrow> Square \<Rightarrow> Piece option" where
  "pieceOn store chessboard square =
     (case map_of chessboard square of
        None \<Rightarrow> None
      | Some r \<Rightarrow> objects store r)"

text \<open>A write to the fields of the piece a board holds on a square, as \<^verbatim>\<open>board[key].side = s\<close>.\<close>

definition writePieceOn :: "Store \<Rightarrow> ChessboardRef \<Rightarrow> Square \<Rightarrow> Piece \<Rightarrow> Store" where
  "writePieceOn store chessboard square piece =
     (case map_of chessboard square of
        None \<Rightarrow> store
      | Some r \<Rightarrow> store\<lparr>objects := (objects store)(r := Some piece)\<rparr>)"

text \<open>A board of references shows a board of values: the same keys in the same order, each
  reference at the piece of the value board.\<close>

definition showsBoard :: "Store \<Rightarrow> ChessboardRef \<Rightarrow> Chessboard \<Rightarrow> bool" where
  "showsBoard store chessboardRef chessboard =
     list_all2 (\<lambda>(key, r) (key', piece). key = key' \<and> objects store r = Some piece)
       chessboardRef chessboard"

definition allocated :: "Store \<Rightarrow> ChessboardRef \<Rightarrow> bool" where
  "allocated store chessboard = list_all (\<lambda>(key, r). r < nextRef store) chessboard"

text \<open>The board \<open>pinnedBoard\<close> with its four pieces at the addresses 0 to 3.\<close>

definition pinnedStore :: Store where
  "pinnedStore =
     \<lparr>objects = (\<lambda>r. if r < length pinnedBoard then Some (snd (pinnedBoard ! r)) else None),
      nextRef = length pinnedBoard\<rparr>"

definition pinnedBoardRef :: ChessboardRef where
  "pinnedBoardRef = zip (map fst pinnedBoard) [0 ..< length pinnedBoard]"

section \<open>Properties of keys, serialisation and the board object\<close>

lemma squareOfKey_positionKey: "squareOfKey (positionKey square) = Some square"
  by (cases square; cases "column square"; cases "row square")
     (simp_all add: positionKey_def columnOfChar_def rowOfChar_def)

lemma columnChar_inj: "columnChar a = columnChar b \<longleftrightarrow> a = b"
  by (cases a; cases b; simp)

lemma rowChar_inj: "rowChar a = rowChar b \<longleftrightarrow> a = b"
  by (cases a; cases b; simp)

text \<open>Two keys are the same text only for the same square: keying the board by squares
  loses no entry.\<close>

lemma positionKey_inj: "positionKey a = positionKey b \<longleftrightarrow> a = b"
  by (cases a; cases b) (simp add: positionKey_def columnChar_inj rowChar_inj)

text \<open>\<^verbatim>\<open>JSON.stringify(checkedPosition) == JSON.stringify(kingPosition)\<close> is equality with
  the king's square, and false for \<^verbatim>\<open>undefined\<close>.\<close>

lemma JSON_stringify_inj: "JSON_stringify (Some a) = JSON_stringify k \<longleftrightarrow> k = Some a"
  by (cases k) (auto simp: JSON_stringify_def columnChar_inj rowChar_inj)

lemma Square_eq_iff: "column a = column b \<and> row a = row b \<longleftrightarrow> a = (b::Square)"
  by (cases a; cases b) simp

lemma cloneDeep_id: "cloneDeep b = b"
  by (simp add: cloneDeep_def case_prod_unfold)

lemma map_of_deleteKey: "map_of (deleteKey b f) s = (if s = f then None else map_of b s)"
  by (induction b) (auto simp: deleteKey_def)

lemma map_of_replace:
  "map_of (map (\<lambda>(k, v'). if k = t then (k, v) else (k, v')) b) s =
     (if s = t then (if t \<in> fst ` set b then Some v else None) else map_of b s)"
  by (induction b) (auto split: if_splits)

lemma map_of_assignKey: "map_of (assignKey b t v) s = (if s = t then Some v else map_of b s)"
proof (cases "list_ex (\<lambda>(k, v). k = t) b")
  case True
  then have "t \<in> fst ` set b"
    by (force simp: list_ex_iff)
  with True show ?thesis
    by (simp add: assignKey_def map_of_replace)
next
  case False
  then have "map_of b t = None"
    by (auto simp: list_ex_iff map_of_eq_None_iff)
  with False show ?thesis
    by (auto simp: assignKey_def map_add_def split: option.splits)
qed

text \<open>What the hypothetical board holds: the moved piece on the destination, nothing on
  the square it left, and every other square as before.\<close>

lemma hypothetical_lookup:
  "map_of (assignKey (deleteKey b f) t v) s =
     (if s = t then Some v else if s = f then None else map_of b s)"
  by (simp add: map_of_assignKey map_of_deleteKey)

lemma set_assign_delete:
  "(k, r) \<in> set (assignKey (deleteKey b f) t v) \<Longrightarrow> (k, r) \<in> set b \<or> (k = t \<and> r = v)"
  by (auto simp: assignKey_def deleteKey_def split: if_splits)

section \<open>Check detection\<close>

lemma find_Some_mem: "find P xs = Some x \<Longrightarrow> x \<in> set xs \<and> P x"
  by (induction xs) (auto split: if_splits)

lemma isKingChecked_fold:
  "fold (isKingCheckedStep pm b kingSide kp) xs flag \<longleftrightarrow>
     flag \<or> (\<exists>(key, piece) \<in> set xs. side piece \<noteq> kingSide
               \<and> (\<exists>s \<in> set (pm piece key b). kp = Some s))"
  by (induction xs arbitrary: flag)
     (auto simp: isKingCheckedStep_def squareOfKey_positionKey JSON_stringify_inj list_ex_iff Let_def)

lemma kingPosition_None:
  "kingPosition kingSide b = None \<longleftrightarrow>
     \<not> (\<exists>(key, piece) \<in> set b. name piece = ''King'' \<and> side piece = kingSide)"
proof (cases "find (\<lambda>(key, piece). name piece = ''King'' \<and> side piece = kingSide) b")
  case None
  then have "kingPosition kingSide b = None"
    by (simp add: kingPosition_def)
  moreover from None
  have "\<not> (\<exists>(key, piece) \<in> set b. name piece = ''King'' \<and> side piece = kingSide)"
    by (auto simp: find_None_iff)
  ultimately show ?thesis
    by simp
next
  case (Some e)
  then show ?thesis
    using find_Some_mem[OF Some]
    by (cases e) (auto simp: kingPosition_def squareOfKey_positionKey)
qed

text \<open>The square \<open>kingPosition\<close> returns holds a king of the side asked for.\<close>

lemma kingPosition_Some:
  assumes "kingPosition kingSide b = Some s"
  shows "\<exists>piece. (s, piece) \<in> set b \<and> name piece = ''King'' \<and> side piece = kingSide"
proof (cases "find (\<lambda>(key, piece). name piece = ''King'' \<and> side piece = kingSide) b")
  case None
  with assms show ?thesis
    by (simp add: kingPosition_def)
next
  case (Some e)
  with assms find_Some_mem[OF Some] show ?thesis
    by (cases e) (auto simp: kingPosition_def squareOfKey_positionKey)
qed

text \<open>
  Claim C2. \<open>isKingChecked\<close> is true exactly when the king of \<open>kingSide\<close> has a square
  (the one \<open>kingPosition\<close> finds) and some piece of the other side on the board has that
  square among the destinations its \<^verbatim>\<open>possibleMoves\<close> gives from its own square on this
  board. \<open>kingPosition\<close> finds no square exactly when the board holds no king of
  \<open>kingSide\<close>, and then \<open>isKingChecked\<close> is false.
\<close>

theorem isKingChecked_iff_attacked:
  "(isKingChecked pm b kingSide \<longleftrightarrow>
     (\<exists>kingSquare. kingPosition kingSide b = Some kingSquare \<and>
        (\<exists>(key, piece) \<in> set b. side piece \<noteq> kingSide \<and> kingSquare \<in> set (pm piece key b))))
   \<and> (kingPosition kingSide b = None \<longleftrightarrow>
        \<not> (\<exists>(key, piece) \<in> set b. name piece = ''King'' \<and> side piece = kingSide))
   \<and> (kingPosition kingSide b = None \<longrightarrow> \<not> isKingChecked pm b kingSide)"
  using kingPosition_None[of kingSide b]
  by (auto simp: isKingChecked_def isKingChecked_fold)

section \<open>Moves\<close>

lemma canMoveOnSquare_iff:
  "canMoveOnSquare pm eng f t \<longleftrightarrow>
     (\<exists>p. onPositionPiece (board eng) f = Some p \<and> t \<in> set (pm p f (board eng)))"
  by (auto simp: canMoveOnSquare_def list_ex_iff Square_eq_iff split: option.splits)

text \<open>When \<open>move\<close> returns events: the four checks have passed, and the events are the
  move followed by the capture \<open>pieceWasCaptured\<close> found, if any.\<close>

lemma move_Inr:
  "fst (move pm eng pl f t) = Inr events \<longleftrightarrow>
     (\<exists>p. onPositionPiece (board eng) f = Some p \<and> playerSide pl = currentSide eng
        \<and> playerSide pl = side p \<and> canMoveOnSquare pm eng f t
        \<and> events = Moved (PieceWasMoved p f t) #
            (case pieceWasCaptured eng t p of None \<Rightarrow> [] | Some captured \<Rightarrow> [Captured captured]))"
  by (cases "onPositionPiece (board eng) f")
     (auto simp: move_def Let_def split: option.splits)

lemma pieceWasCaptured_cases:
  "(case pieceWasCaptured eng t p of None \<Rightarrow> [] | Some captured \<Rightarrow> [Captured captured]) =
     (case onPositionPiece (board eng) t of
        None \<Rightarrow> []
      | Some q \<Rightarrow> if side q \<noteq> side p then [Captured (PieceWasCaptured q t)] else [])"
  by (simp add: pieceWasCaptured_def isOpponentOf_def split: option.splits)

text \<open>
  Claim C5. \<open>move\<close> fails with \<open>IllegalMove\<close> when no piece stands on the source square;
  otherwise with \<open>OutOfTurn\<close> when the player's side is not the side to move; otherwise
  with \<open>WrongOwner\<close> when the piece is of another side than the player; otherwise with
  \<open>IllegalDestination\<close> when the destination is not among the piece's destinations on the
  live board; and in every other case it returns events.
\<close>

theorem move_error_order:
  "(onPositionPiece (board eng) f = None \<longrightarrow> fst (move pm eng pl f t) = Inl IllegalMove)
   \<and> (\<forall>p. onPositionPiece (board eng) f = Some p \<longrightarrow>
        (playerSide pl \<noteq> currentSide eng \<longrightarrow> fst (move pm eng pl f t) = Inl OutOfTurn)
      \<and> (playerSide pl = currentSide eng \<and> playerSide pl \<noteq> side p
            \<longrightarrow> fst (move pm eng pl f t) = Inl WrongOwner)
      \<and> (playerSide pl = currentSide eng \<and> playerSide pl = side p \<and> t \<notin> set (pm p f (board eng))
            \<longrightarrow> fst (move pm eng pl f t) = Inl IllegalDestination)
      \<and> (playerSide pl = currentSide eng \<and> playerSide pl = side p \<and> t \<in> set (pm p f (board eng))
            \<longrightarrow> (\<exists>events. fst (move pm eng pl f t) = Inr events)))"
  by (auto simp: move_def canMoveOnSquare_iff Let_def split: option.splits)

text \<open>
  Claim C6. A call of \<open>move\<close> that fails leaves the engine as it was: the board and the
  side to move are those before the call.
\<close>

theorem move_failure_no_mutation:
  "fst (move pm eng pl f t) = Inl e \<Longrightarrow>
     snd (move pm eng pl f t) = eng
     \<and> board (snd (move pm eng pl f t)) = board eng
     \<and> currentSide (snd (move pm eng pl f t)) = currentSide eng"
  by (auto simp: move_def Let_def split: option.splits if_splits)

text \<open>
  Claim C7. A call of \<open>move\<close> that succeeds leaves the other side to move; a call that
  fails leaves the same side to move. \<open>changeTurn\<close> exchanges the two sides.
\<close>

theorem move_flips_currentSide:
  "(fst (move pm eng pl f t) = Inr events \<longrightarrow>
      currentSide (snd (move pm eng pl f t)) = changeTurn (currentSide eng)
      \<and> currentSide (snd (move pm eng pl f t)) \<noteq> currentSide eng)
   \<and> (fst (move pm eng pl f t) = Inl e \<longrightarrow>
      currentSide (snd (move pm eng pl f t)) = currentSide eng)
   \<and> changeTurn WHITE = BLACK \<and> changeTurn BLACK = WHITE"
  by (auto simp: move_def Let_def changeTurn_def split: option.splits if_splits)

text \<open>
  Claim C4. The events of a successful \<open>move\<close> are the \<open>PieceWasMoved\<close> event of the piece
  that stood on the source square, followed by one \<open>PieceWasCaptured\<close> event exactly when,
  on the board before the move, the destination held a piece of the other side than the
  moved piece; that event names the piece that stood there. There are no other events.
\<close>

theorem move_events_capture:
  assumes "fst (move pm eng pl f t) = Inr events"
  shows "\<exists>p. onPositionPiece (board eng) f = Some p
     \<and> events = Moved (PieceWasMoved p f t) #
         (case onPositionPiece (board eng) t of
            None \<Rightarrow> []
          | Some q \<Rightarrow> if side q \<noteq> side p then [Captured (PieceWasCaptured q t)] else [])
     \<and> ((\<exists>c. Captured c \<in> set events) \<longleftrightarrow>
          (\<exists>q. onPositionPiece (board eng) t = Some q \<and> side q \<noteq> side p))"
proof -
  from assms obtain p where p: "onPositionPiece (board eng) f = Some p"
    and ev: "events = Moved (PieceWasMoved p f t) #
         (case onPositionPiece (board eng) t of
            None \<Rightarrow> []
          | Some q \<Rightarrow> if side q \<noteq> side p then [Captured (PieceWasCaptured q t)] else [])"
    unfolding move_Inr pieceWasCaptured_cases by blast
  have "(\<exists>c. Captured c \<in> set events) \<longleftrightarrow>
          (\<exists>q. onPositionPiece (board eng) t = Some q \<and> side q \<noteq> side p)"
    unfolding ev by (cases "onPositionPiece (board eng) t") auto
  with p ev show ?thesis
    by blast
qed

text \<open>
  Claim C3. When a piece stands on the source square, the player's side is the side to
  move and the piece is the player's, \<open>move\<close> succeeds exactly when the destination is
  among the piece's destinations on the live board. In particular it succeeds for such a
  destination also when the move leaves the mover's king checked.
\<close>

theorem move_succeeds_iff_pseudo_legal:
  assumes "onPositionPiece (board eng) f = Some p"
    and "playerSide pl = currentSide eng"
    and "playerSide pl = side p"
  shows "((\<exists>events. fst (move pm eng pl f t) = Inr events) \<longleftrightarrow> t \<in> set (pm p f (board eng)))
     \<and> (t \<in> set (pm p f (board eng)) \<and> willBeKingChecked pm eng f t = Some True
          \<longrightarrow> (\<exists>events. fst (move pm eng pl f t) = Inr events))"
  using assms
  by (simp add: move_Inr canMoveOnSquare_iff)

section \<open>Listing the legal moves\<close>

text \<open>With a piece on the source square \<open>willBeKingChecked\<close> returns, and it returns
  \<open>isKingChecked\<close> of the hypothetical board for the side to move.\<close>

lemma willBeKingChecked_Some:
  "onPositionPiece (board eng) f = Some p \<Longrightarrow>
     willBeKingChecked pm eng f t =
       Some (isKingChecked pm (assignKey (deleteKey (board eng) f) t p) (currentSide eng))"
  by (simp add: willBeKingChecked_def returnWirtualProposedBoardAfterMove_def cloneDeep_id)

text \<open>
  Claim C1. With a piece on \<open>position\<close>, the engine's \<open>possibleMoves\<close> is the list of the
  piece's destinations on the live board without those for which \<open>isKingChecked\<close> holds,
  for the side to move, of the hypothetical board (the copy of the live board with the
  entry of \<open>position\<close> deleted and the piece assigned to the destination). A destination
  is dropped exactly when \<open>isKingChecked\<close> holds of its hypothetical board.
\<close>

theorem possibleMoves_filters_king_safety:
  assumes "onPositionPiece (board eng) position = Some p"
  shows "possibleMoves pm eng position =
           filter (\<lambda>d. \<not> isKingChecked pm (assignKey (deleteKey (board eng) position) d p) (currentSide eng))
             (pm p position (board eng))
     \<and> (\<forall>d \<in> set (pm p position (board eng)).
           d \<notin> set (possibleMoves pm eng position) \<longleftrightarrow>
           isKingChecked pm (assignKey (deleteKey (board eng) position) d p) (currentSide eng))"
  using assms
  by (simp add: possibleMoves_def returnPlayerMovesWithoutThoseThatCauseHisKingToCheck_def
      willBeKingChecked_Some)

text \<open>
  Claim C10. Whatever the side of the piece on \<open>position\<close>, a destination is listed exactly
  when it is a destination of the piece and the king of the side to move is not checked on
  the hypothetical board. For a piece of the side that is not to move, that king is the
  king of the other side than the piece's.
\<close>

theorem possibleMoves_filters_currentSide_king:
  assumes "onPositionPiece (board eng) position = Some p"
  shows "(d \<in> set (possibleMoves pm eng position) \<longleftrightarrow>
            d \<in> set (pm p position (board eng))
            \<and> \<not> isKingChecked pm (assignKey (deleteKey (board eng) position) d p) (currentSide eng))
     \<and> (side p \<noteq> currentSide eng \<longrightarrow>
          (d \<in> set (possibleMoves pm eng position) \<longleftrightarrow>
            d \<in> set (pm p position (board eng))
            \<and> \<not> isKingChecked pm (assignKey (deleteKey (board eng) position) d p) (changeTurn (side p))))"
proof -
  have "side p \<noteq> currentSide eng \<Longrightarrow> changeTurn (side p) = currentSide eng"
    by (cases "side p"; cases "currentSide eng") (simp_all add: changeTurn_def)
  then show ?thesis
    using assms
    by (auto simp: possibleMoves_def returnPlayerMovesWithoutThoseThatCauseHisKingToCheck_def
      willBeKingChecked_Some)
qed

section \<open>The pawn's destinations\<close>

text \<open>
  Claim C9. \<open>Pawn.possibleMoves\<close> is the result of \<open>goAhead\<close>, followed by that of
  \<open>goDoubleAhead\<close>, followed by that of \<open>goDiagonalAhead\<close>, each for the same position and
  board; its destinations are those of the three sub-rules and no others.
\<close>

theorem Pawn_possibleMoves_concat:
  "Pawn_possibleMoves goAhead' goDoubleAhead' goDiagonalAhead' position b =
     goAhead' position b @ goDoubleAhead' position b @ goDiagonalAhead' position b
   \<and> set (Pawn_possibleMoves goAhead' goDoubleAhead' goDiagonalAhead' position b) =
     set (goAhead' position b) \<union> set (goDoubleAhead' position b) \<union> set (goDiagonalAhead' position b)"
  by (auto simp: Pawn_possibleMoves_def)

end
